theory Spec2Isabelle
  imports Main "HOL-Library.Sublist" "HOL-Library.Word"
begin

section \<open>The API demo panel of weekly-recipes (src/components/RecipeApiDemo.tsx)\<close>

text \<open>
  The component \<open>RecipeApiDemo\<close> keeps four pieces of React state (\<open>backend\<close>,
  \<open>isLoading\<close>, \<open>result\<close>, \<open>error\<close>), derives the endpoint URLs from \<open>backend\<close>,
  and has one asynchronous function, \<open>callApi\<close>. The model passes the state explicitly.
  What the browser does (\<open>fetch\<close>, \<open>res.text()\<close>, \<open>res.json()\<close>) is an input of the
  model: a value that says how each awaited promise settled.
\<close>

subsection \<open>JavaScript strings\<close>

text \<open>
  A JavaScript string is a sequence of 16-bit code units (UTF-16). The texts that come
  out of a JSON body, and what \<open>JSON.stringify\<close> makes of them, are kept as such
  sequences; \<open>js\<close> turns a text of this file into one.
\<close>

type_synonym code_unit = "16 word"

type_synonym jstring = "code_unit list"

definition js :: "string \<Rightarrow> jstring" where
  "js s = map of_char s"

subsection \<open>JSON values\<close>

text \<open>
  The values \<open>res.json()\<close> can produce, and the literal passed to \<open>JSON.stringify\<close> in
  the POST handler. \<open>JNull\<close> is JavaScript's \<open>null\<close>, which is also the initial value of
  the \<open>result\<close> state. An object is the list of its own properties in enumeration order.
  A number is an IEEE double, and the arithmetic of doubles is not modelled: a number
  is kept as the text that JavaScript's conversion of a number to a string gives for it
  (\<open>30\<close>, \<open>1.5\<close>, \<open>1e+21\<close>, \<open>Infinity\<close>), which tells any two numbers apart but \<open>0\<close> and
  \<open>-0\<close>, both of them \<open>0\<close>.
\<close>

datatype json =
    JNull
  | JBool bool
  | JNum string
  | JStr jstring
  | JArr "json list"
  | JObj "(jstring \<times> json) list"

text \<open>
  JavaScript's truthiness, as the conditional \<open>result ? ... : null\<close> uses it: the falsy
  values are \<open>null\<close>, \<open>false\<close>, the numbers \<open>0\<close>, \<open>-0\<close> and \<open>NaN\<close>, and the empty string.
\<close>

fun truthy :: "json \<Rightarrow> bool" where
  "truthy JNull = False"
| "truthy (JBool b) = b"
| "truthy (JNum n) = (n \<noteq> ''0'' \<and> n \<noteq> ''NaN'')"
| "truthy (JStr s) = (s \<noteq> [])"
| "truthy (JArr xs) = True"
| "truthy (JObj kvs) = True"

subsection \<open>Numbers and strings as text\<close>

definition digit_char :: "nat \<Rightarrow> char" where
  "digit_char d = ''0123456789'' ! d"

text \<open>The decimal digits of a natural number, as a template literal prints \<open>res.status\<close>.\<close>

fun show_nat :: "nat \<Rightarrow> string" where
  "show_nat n =
     (if n < 10 then [digit_char n] else show_nat (n div 10) @ [digit_char (n mod 10)])"

declare show_nat.simps [simp del]

definition hex_char :: "nat \<Rightarrow> char" where
  "hex_char d = ''0123456789abcdef'' ! d"

text \<open>The escape \<open>\uXXXX\<close> of a code unit, with four lower-case hexadecimal digits.\<close>

definition unicode_escape :: "code_unit \<Rightarrow> jstring" where
  "unicode_escape c =
     (let n = unat c in
      js [CHR 0x5C, CHR ''u'', hex_char (n div 4096), hex_char (n div 256 mod 16),
          hex_char (n div 16 mod 16), hex_char (n mod 16)])"

definition high_surrogate :: "code_unit \<Rightarrow> bool" where
  "high_surrogate c = (0xD800 \<le> c \<and> c \<le> 0xDBFF)"

definition low_surrogate :: "code_unit \<Rightarrow> bool" where
  "low_surrogate c = (0xDC00 \<le> c \<and> c \<le> 0xDFFF)"

text \<open>
  One code unit inside a JSON string literal (QuoteJSONString of ECMAScript): the quote
  and the backslash are escaped, the control characters have their short or \<open>\u00XX\<close>
  form, and so has a surrogate that stands alone.
\<close>

definition quote_unit :: "code_unit \<Rightarrow> jstring" where
  "quote_unit c =
     (if c = 0x08 then js [CHR 0x5C, CHR ''b'']
      else if c = 0x09 then js [CHR 0x5C, CHR ''t'']
      else if c = 0x0A then js [CHR 0x5C, CHR ''n'']
      else if c = 0x0C then js [CHR 0x5C, CHR ''f'']
      else if c = 0x0D then js [CHR 0x5C, CHR ''r'']
      else if c = 0x22 then js [CHR 0x5C, CHR 0x22]
      else if c = 0x5C then js [CHR 0x5C, CHR 0x5C]
      else if c < 0x20 \<or> high_surrogate c \<or> low_surrogate c then unicode_escape c
      else [c])"

text \<open>A high surrogate followed by a low one is one character and is copied.\<close>

fun quote_units :: "jstring \<Rightarrow> jstring" where
  "quote_units [] = []"
| "quote_units [c] = quote_unit c"
| "quote_units (c # d # ds) =
     (if high_surrogate c \<and> low_surrogate d then c # d # quote_units ds
      else quote_unit c @ quote_units (d # ds))"

definition quote :: "jstring \<Rightarrow> jstring" where
  "quote s = js [CHR 0x22] @ quote_units s @ js [CHR 0x22]"

fun join :: "'a list \<Rightarrow> 'a list list \<Rightarrow> 'a list" where
  "join sep [] = []"
| "join sep [x] = x"
| "join sep (x # y # ys) = x @ sep @ join sep (y # ys)"

subsection \<open>JSON.stringify\<close>

text \<open>
  \<open>serialize gap indent v\<close> is SerializeJSONProperty of ECMAScript on a JSON value:
  \<open>gap\<close> is the indentation unit (empty for the compact form) and \<open>indent\<close> the
  indentation of the enclosing level. A finite number is printed as its text, and a
  number that is not finite as \<open>null\<close>.
\<close>

fun serialize :: "jstring \<Rightarrow> jstring \<Rightarrow> json \<Rightarrow> jstring" where
  "serialize gap indent JNull = js ''null''"
| "serialize gap indent (JBool b) = (if b then js ''true'' else js ''false'')"
| "serialize gap indent (JNum n) =
     (if n = ''Infinity'' \<or> n = ''-Infinity'' \<or> n = ''NaN'' then js ''null'' else js n)"
| "serialize gap indent (JStr s) = quote s"
| "serialize gap indent (JArr xs) =
     (if xs = [] then js ''[]''
      else let inner = indent @ gap;
               partial = map (serialize gap inner) xs
           in if gap = [] then js ''['' @ join (js '','') partial @ js '']''
              else js ''['' @ js [CHR 0x0A] @ inner
                   @ join (js '','' @ js [CHR 0x0A] @ inner) partial
                   @ js [CHR 0x0A] @ indent @ js '']'')"
| "serialize gap indent (JObj kvs) =
     (if kvs = [] then js ''{}''
      else let inner = indent @ gap;
               partial = map (\<lambda>kv. quote (fst kv) @ js '':''
                                     @ (if gap = [] then [] else js '' '')
                                     @ serialize gap inner (snd kv)) kvs
           in if gap = [] then js ''{'' @ join (js '','') partial @ js ''}''
              else js ''{'' @ js [CHR 0x0A] @ inner
                   @ join (js '','' @ js [CHR 0x0A] @ inner) partial
                   @ js [CHR 0x0A] @ indent @ js ''}'')"

text \<open>
  \<open>JSON.stringify(v, null, space)\<close>: with no \<open>space\<close> the gap is empty; a number gives
  that many blanks, at most ten.
\<close>

definition stringify :: "json \<Rightarrow> nat option \<Rightarrow> jstring" where
  "stringify v space =
     serialize (case space of None \<Rightarrow> [] | Some k \<Rightarrow> js (replicate (min k 10) CHR '' '')) [] v"

text \<open>The component \<open>PrettyJson\<close>: the text of its \<open>pre\<close> element.\<close>

definition PrettyJson :: "json \<Rightarrow> jstring" where
  "PrettyJson data = stringify data (Some 2)"

subsection \<open>What the browser hands back\<close>

text \<open>
  A value caught by \<open>catch (e)\<close>: an \<open>Error\<close> instance with its \<open>message\<close>, or any other
  thrown value, given by what \<open>String(e)\<close> makes of it.
\<close>

datatype thrown = ErrorObj string | NonError string

text \<open>
  A \<open>Response\<close>: its status code and how the promises \<open>res.text()\<close> and \<open>res.json()\<close>
  settle (\<open>Inl\<close> a rejection). \<open>res.ok\<close> is true for the statuses 200 to 299.
\<close>

record response =
  status :: nat
  res_text :: "thrown + string"
  res_json :: "thrown + json"

definition ok :: "response \<Rightarrow> bool" where
  "ok res = (200 \<le> status res \<and> status res \<le> 299)"

text \<open>How \<open>fetch(url, init)\<close> settles: rejected (\<open>Inl\<close>) or resolved with a response.\<close>

type_synonym fetched = "thrown + response"

subsection \<open>The component's state\<close>

record panel =
  backend :: string
  isLoading :: bool
  result :: json
  error :: "string option"

text \<open>
  The initial values of the four \<open>useState\<close> calls; \<open>envBase\<close> is
  \<open>import.meta.env.VITE_API_BASE_URL\<close>, \<open>None\<close> when it is undefined.
\<close>

definition initial :: "string option \<Rightarrow> panel" where
  "initial envBase =
     \<lparr>backend = (case envBase of None \<Rightarrow> ''http://localhost:3000'' | Some b \<Rightarrow> b),
      isLoading = False, result = JNull, error = None\<rparr>"

subsection \<open>The endpoints\<close>

record endpoint_set =
  listRecipes :: string
  createRecipe :: string
  weeklyPlan :: "string \<Rightarrow> string"

text \<open>The \<open>useMemo\<close> value: a function of \<open>backend\<close>, its only dependency.\<close>

definition endpoints :: "string \<Rightarrow> endpoint_set" where
  "endpoints b =
     \<lparr>listRecipes = b @ ''/api/recipes'',
      createRecipe = b @ ''/api/recipes'',
      weeklyPlan = (\<lambda>date. b @ ''/api/weeks/'' @ date @ ''/plan'')\<rparr>"

subsection \<open>callApi\<close>

text \<open>
  The part of \<open>callApi\<close> that runs before the first \<open>await\<close>:
  \<open>setIsLoading(true); setError(null)\<close>.
\<close>

definition callApi_begin :: "panel \<Rightarrow> panel" where
  "callApi_begin s = s\<lparr>isLoading := True, error := None\<rparr>"

text \<open>
  The \<open>try\<close> block after \<open>fetch\<close> has settled: \<open>Inl\<close> is what reaches \<open>catch\<close>,
  \<open>Inr\<close> the value given to \<open>setResult\<close>.
\<close>

definition try_block :: "fetched \<Rightarrow> thrown + json" where
  "try_block f =
     (case f of
        Inl e \<Rightarrow> Inl e
      | Inr res \<Rightarrow>
          if \<not> ok res then
            (case res_text res of
               Inl e \<Rightarrow> Inl e
             | Inr txt \<Rightarrow> Inl (ErrorObj (''HTTP '' @ show_nat (status res) @ '': '' @ txt)))
          else res_json res)"

text \<open>\<open>e instanceof Error ? e.message : String(e)\<close>\<close>

fun msg :: "thrown \<Rightarrow> string" where
  "msg (ErrorObj message) = message"
| "msg (NonError str) = str"

text \<open>
  The rest of \<open>callApi\<close>, run when \<open>fetch\<close> has settled, on the state of that moment:
  \<open>setResult(json)\<close>, or \<open>setError(msg); setResult(null)\<close> in \<open>catch\<close>, and
  \<open>setIsLoading(false)\<close> in \<open>finally\<close>.
\<close>

definition callApi_resume :: "panel \<Rightarrow> fetched \<Rightarrow> panel" where
  "callApi_resume s f =
     (case try_block f of
        Inr j \<Rightarrow> s\<lparr>result := j\<rparr>
      | Inl e \<Rightarrow> s\<lparr>error := Some (msg e), result := JNull\<rparr>)\<lparr>isLoading := False\<rparr>"

text \<open>One whole attempt from the state \<open>s\<close>, with nothing else happening in between.\<close>

definition callApi :: "panel \<Rightarrow> fetched \<Rightarrow> panel" where
  "callApi s f = callApi_resume (callApi_begin s) f"

subsection \<open>The event handlers\<close>

text \<open>What \<open>callApi(url, init)\<close> passes to \<open>fetch\<close>.\<close>

record request_init =
  http_method :: string
  headers :: "(string \<times> string) list"
  body :: jstring

record request =
  url :: string
  init :: "request_init option"

datatype action = ListRecipes | CreateRecipe | WeeklyPlan

text \<open>The object literal of the POST handler.\<close>

definition sample_recipe :: json where
  "sample_recipe =
     JObj [(js ''name'', JStr (js ''Miso Soup'')),
           (js ''steps'', JStr (js ''Boil dashi, add miso.'')),
           (js ''ingredients'',
              JArr [JObj [(js ''name'', JStr (js ''miso'')), (js ''quantity'', JNum ''30''),
                          (js ''unit'', JStr (js ''GRAM''))]])]"

text \<open>The arguments of \<open>callApi\<close> in the three \<open>onClick\<close> handlers.\<close>

fun onClick_request :: "endpoint_set \<Rightarrow> action \<Rightarrow> request" where
  "onClick_request eps ListRecipes = \<lparr>url = listRecipes eps, init = None\<rparr>"
| "onClick_request eps CreateRecipe =
     \<lparr>url = createRecipe eps,
      init = Some \<lparr>http_method = ''POST'',
                   headers = [(''Content-Type'', ''application/json'')],
                   body = stringify sample_recipe None\<rparr>\<rparr>"
| "onClick_request eps WeeklyPlan = \<lparr>url = weeklyPlan eps ''2025-08-25'', init = None\<rparr>"

text \<open>
  The values of the \<open>option\<close> elements of the \<open>select\<close>: the one for \<open>envBase\<close> is
  there when \<open>envBase\<close> is truthy.
\<close>

definition select_options :: "string option \<Rightarrow> string list" where
  "select_options envBase =
     (case envBase of None \<Rightarrow> [] | Some b \<Rightarrow> if b = [] then [] else [b])
     @ [''http://localhost:3000'', ''http://localhost:8080'', ''custom'']"

text \<open>
  The events of the panel: \<open>onChange\<close> of the \<open>select\<close> and of the \<open>input\<close> with the
  new value, a click on one of the three buttons, and the settling of a pending \<open>fetch\<close>.
\<close>

datatype event =
    SelectChange string
  | InputChange string
  | Click action
  | Settled fetched

text \<open>
  One event: the next state and the requests sent. A button is \<open>disabled\<close> while
  \<open>isLoading\<close>, so its handler does not run then.
\<close>

fun step :: "panel \<Rightarrow> event \<Rightarrow> panel \<times> request list" where
  "step s (SelectChange v) = (s\<lparr>backend := v\<rparr>, [])"
| "step s (InputChange v) = (s\<lparr>backend := v\<rparr>, [])"
| "step s (Click a) =
     (if isLoading s then (s, [])
      else (callApi_begin s, [onClick_request (endpoints (backend s)) a]))"
| "step s (Settled f) = (callApi_resume s f, [])"

text \<open>A sequence of events: the final state and all requests sent, in order.\<close>

fun run :: "panel \<Rightarrow> event list \<Rightarrow> panel \<times> request list" where
  "run s [] = (s, [])"
| "run s (ev # evs) =
     (let (s1, out1) = step s ev; (s2, out2) = run s1 evs in (s2, out1 @ out2))"

subsection \<open>What is rendered\<close>

text \<open>
  The parts of the returned element that depend on the state: the \<open>value\<close> of the
  \<open>select\<close>, the \<open>disabled\<close> attribute of the buttons, the loading line
  (\<open>isLoading && ...\<close>), the error block (\<open>error && ...\<close>, absent for \<open>null\<close> and for the
  empty string) and the \<open>PrettyJson\<close> element (\<open>result ? ... : null\<close>).
\<close>

record view =
  select_value :: string
  buttons_disabled :: bool
  loading_line :: bool
  error_block :: "string option"
  pretty_json :: "jstring option"

definition render :: "panel \<Rightarrow> view" where
  "render s =
     \<lparr>select_value = backend s,
      buttons_disabled = isLoading s,
      loading_line = isLoading s,
      error_block = (case error s of None \<Rightarrow> None | Some m \<Rightarrow> if m = [] then None else Some m),
      pretty_json = (if truthy (result s) then Some (PrettyJson (result s)) else None)\<rparr>"

subsection \<open>The outcome of the specification\<close>

text \<open>
  The specification speaks of one outcome, Idle, Loading, Success or Failure, where the
  code has three fields. \<open>spec_outcome\<close> reads the fields as the specification's words
  do: a request outstanding is Loading, a message is Failure, a payload is Success, and
  nothing at all is Idle.
\<close>

datatype outcome = Idle | Loading | Success json | Failure string

definition spec_outcome :: "panel \<Rightarrow> outcome" where
  "spec_outcome s =
     (if isLoading s then Loading
      else case error s of
             Some m \<Rightarrow> Failure m
           | None \<Rightarrow> if result s = JNull then Idle else Success (result s))"

subsection \<open>Events that write the backend address\<close>

fun changes_backend :: "event \<Rightarrow> bool" where
  "changes_backend (SelectChange v) = True"
| "changes_backend (InputChange v) = True"
| "changes_backend (Click a) = False"
| "changes_backend (Settled f) = False"

text \<open>The value an \<open>onChange\<close> event passes to \<open>setBackend\<close>.\<close>

fun written_backend :: "event \<Rightarrow> string option" where
  "written_backend (SelectChange v) = Some v"
| "written_backend (InputChange v) = Some v"
| "written_backend (Click a) = None"
| "written_backend (Settled f) = None"

section \<open>Basic facts\<close>

lemma callApi_begin_fields:
  "backend (callApi_begin s) = backend s"
  "isLoading (callApi_begin s)"
  "result (callApi_begin s) = result s"
  "error (callApi_begin s) = None"
  by (simp_all add: callApi_begin_def)

lemma callApi_resume_backend: "backend (callApi_resume s f) = backend s"
  by (simp add: callApi_resume_def split: sum.splits)

lemma callApi_resume_isLoading: "\<not> isLoading (callApi_resume s f)"
  by (simp add: callApi_resume_def split: sum.splits)

lemma callApi_resume_Inr:
  "try_block f = Inr j \<Longrightarrow> callApi_resume s f = s\<lparr>result := j, isLoading := False\<rparr>"
  by (simp add: callApi_resume_def)

lemma callApi_resume_Inl:
  "try_block f = Inl e \<Longrightarrow>
   callApi_resume s f = s\<lparr>error := Some (msg e), result := JNull, isLoading := False\<rparr>"
  by (simp add: callApi_resume_def)

text \<open>The \<open>try\<close> block hands a value to \<open>setResult\<close> exactly for a 2xx response whose
  body parses.\<close>

lemma try_block_Inr_iff:
  "try_block f = Inr j \<longleftrightarrow> (\<exists>res. f = Inr res \<and> ok res \<and> res_json res = Inr j)"
  by (auto simp: try_block_def split: sum.splits)

lemma step_change:
  "changes_backend ev \<Longrightarrow> step s ev = (s\<lparr>backend := the (written_backend ev)\<rparr>, [])"
  by (cases ev) simp_all

lemma run_changes:
  "\<forall>ev\<in>set evs. changes_backend ev \<Longrightarrow>
   run s evs =
     (s\<lparr>backend := (if evs = [] then backend s else the (written_backend (last evs)))\<rparr>, [])"
proof (induction evs arbitrary: s)
  case Nil
  show ?case by simp
next
  case (Cons ev evs)
  then have "changes_backend ev" and "\<forall>e\<in>set evs. changes_backend e"
    by simp_all
  then show ?case
    using Cons.IH [of "s\<lparr>backend := the (written_backend ev)\<rparr>"]
    by (simp add: step_change)
qed

lemma step_keeps_backend:
  "\<not> changes_backend ev \<Longrightarrow> backend (fst (step s ev)) = backend s"
  by (cases ev) (simp_all add: callApi_begin_fields callApi_resume_backend)

lemma run_keeps_backend:
  "\<forall>ev\<in>set evs. \<not> changes_backend ev \<Longrightarrow> backend (fst (run s evs)) = backend s"
  by (induction evs arbitrary: s) (simp_all add: case_prod_beta step_keeps_backend)

lemma spec_outcome_backend: "spec_outcome (s\<lparr>backend := v\<rparr>) = spec_outcome s"
  by (simp add: spec_outcome_def split: option.splits)

lemma step_not_idle:
  assumes "spec_outcome s \<noteq> Idle"
    and "\<And>res. ev = Settled (Inr res) \<Longrightarrow> ok res \<Longrightarrow> res_json res \<noteq> Inr JNull"
  shows "spec_outcome (fst (step s ev)) \<noteq> Idle"
proof (cases ev)
  case (Settled f)
  show ?thesis
  proof (cases "try_block f")
    case (Inl e)
    with Settled show ?thesis
      by (simp add: callApi_resume_Inl spec_outcome_def)
  next
    case (Inr j)
    then obtain res where "f = Inr res" "ok res" "res_json res = Inr j"
      by (auto simp: try_block_Inr_iff)
    with assms(2) Settled have "j \<noteq> JNull"
      by auto
    with Inr Settled show ?thesis
      by (simp add: callApi_resume_Inr spec_outcome_def split: option.splits)
  qed
next
  case (Click a)
  then show ?thesis
    by (simp add: spec_outcome_def callApi_begin_fields)
qed (use assms(1) in \<open>simp_all add: spec_outcome_backend\<close>)

lemma run_not_idle:
  assumes "\<forall>ev\<in>set evs. \<forall>res. ev = Settled (Inr res) \<and> ok res \<longrightarrow> res_json res \<noteq> Inr JNull"
    and "spec_outcome s \<noteq> Idle"
  shows "spec_outcome (fst (run s evs)) \<noteq> Idle"
  using assms
proof (induction evs arbitrary: s)
  case Nil
  then show ?case by simp
next
  case (Cons ev evs)
  have "spec_outcome (fst (step s ev)) \<noteq> Idle"
    using Cons.prems by (intro step_not_idle) auto
  moreover have "\<forall>e\<in>set evs. \<forall>res. e = Settled (Inr res) \<and> ok res \<longrightarrow> res_json res \<noteq> Inr JNull"
    using Cons.prems(1) by simp
  ultimately show ?case
    using Cons.IH by (simp add: case_prod_beta)
qed

lemma click_loading: "spec_outcome (fst (step s (Click a))) = Loading"
  by (simp add: spec_outcome_def callApi_begin_fields)

lemma replicate_two: "replicate 2 c = [c, c]"
  by (simp add: numeral_2_eq_2)

section \<open>The claims\<close>

subsection \<open>C1: a trigger switches to Loading\<close>

text \<open>
  The specification says that a trigger, from a state with no request outstanding,
  sets the outcome to Loading and clears both the prior error and the prior result.
  \<open>callApi\<close> calls \<open>setIsLoading(true)\<close> and \<open>setError(null)\<close> before the \<open>fetch\<close>,
  and no \<open>setResult\<close>: a payload of an earlier success stays in \<open>result\<close> while
  loading. Here the panel has received the array \<open>[]\<close> and the list button is clicked
  again.
\<close>

theorem C1_result_not_cleared:
  "spec_outcome (fst (run (initial None)
     [Click ListRecipes,
      Settled (Inr \<lparr>status = 200, res_text = Inr ''[]'', res_json = Inr (JArr [])\<rparr>)]))
     = Success (JArr []) \<and>
   result (fst (run (initial None)
     [Click ListRecipes,
      Settled (Inr \<lparr>status = 200, res_text = Inr ''[]'', res_json = Inr (JArr [])\<rparr>),
      Click ListRecipes])) = JArr [] \<and>
   JArr [] \<noteq> JNull"
  by (simp add: initial_def spec_outcome_def callApi_begin_def callApi_resume_def
      try_block_def ok_def)

text \<open>
  C1, amended: for each of the three triggers, from any state with no request
  outstanding (Idle, Success or Failure), the click at once makes the outcome Loading
  and clears the prior error, and sends the one request of that trigger; the prior
  result is left as it was.
\<close>

theorem C1_trigger_sets_loading:
  assumes "\<not> isLoading s"
  shows "isLoading (fst (step s (Click a))) \<and>
         error (fst (step s (Click a))) = None \<and>
         result (fst (step s (Click a))) = result s \<and>
         spec_outcome (fst (step s (Click a))) = Loading \<and>
         snd (step s (Click a)) = [onClick_request (endpoints (backend s)) a]"
  using assms by (simp add: callApi_begin_fields spec_outcome_def)

theorem C1_trigger_sets_loading_witness:
  "\<not> isLoading \<lparr>backend = ''http://localhost:8080'', isLoading = False,
                 result = JNull, error = Some ''HTTP 500: boom''\<rparr> \<and>
   fst (step \<lparr>backend = ''http://localhost:8080'', isLoading = False,
              result = JNull, error = Some ''HTTP 500: boom''\<rparr> (Click WeeklyPlan))
     = \<lparr>backend = ''http://localhost:8080'', isLoading = True, result = JNull, error = None\<rparr> \<and>
   snd (step \<lparr>backend = ''http://localhost:8080'', isLoading = False,
              result = JNull, error = Some ''HTTP 500: boom''\<rparr> (Click WeeklyPlan))
     = [\<lparr>url = ''http://localhost:8080/api/weeks/2025-08-25/plan'', init = None\<rparr>]"
  using C1_trigger_sets_loading
    [of "\<lparr>backend = ''http://localhost:8080'', isLoading = False,
          result = JNull, error = Some ''HTTP 500: boom''\<rparr>" WeeklyPlan]
  by (simp add: callApi_begin_def endpoints_def)

subsection \<open>C2: result and error after an attempt\<close>

text \<open>
  The specification says that after every completed attempt exactly one of \<open>result\<close> and
  \<open>error\<close> is non-empty. A 200 response with the body \<open>null\<close> parses to \<open>null\<close>, which is
  stored by \<open>setResult\<close>, and \<open>error\<close> was cleared at the start: both are empty.
\<close>

theorem C2_both_empty_after_null_body:
  "result (callApi (initial None)
             (Inr \<lparr>status = 200, res_text = Inr ''null'', res_json = Inr JNull\<rparr>)) = JNull \<and>
   error (callApi (initial None)
            (Inr \<lparr>status = 200, res_text = Inr ''null'', res_json = Inr JNull\<rparr>)) = None"
  by (simp add: callApi_def callApi_resume_def callApi_begin_def try_block_def ok_def initial_def)

text \<open>
  C2, amended: after every completed attempt, \<open>result\<close> and \<open>error\<close> are never both
  non-empty, and both are empty exactly when the attempt was a 2xx response whose body
  parsed to the JSON value \<open>null\<close>; after every other attempt exactly one is non-empty.
\<close>

theorem C2_result_xor_error:
  "\<not> (result (callApi s f) \<noteq> JNull \<and> error (callApi s f) \<noteq> None) \<and>
   ((result (callApi s f) = JNull \<and> error (callApi s f) = None) =
    (\<exists>res. f = Inr res \<and> ok res \<and> res_json res = Inr JNull))"
proof (cases "try_block f")
  case (Inl e)
  then have "\<not> (\<exists>res. f = Inr res \<and> ok res \<and> res_json res = Inr JNull)"
    by (simp add: try_block_Inr_iff [symmetric])
  with Inl show ?thesis
    by (simp add: callApi_def callApi_resume_Inl)
next
  case (Inr j)
  then have "(\<exists>res. f = Inr res \<and> ok res \<and> res_json res = Inr JNull) = (j = JNull)"
    by (simp add: try_block_Inr_iff [symmetric])
  with Inr show ?thesis
    by (simp add: callApi_def callApi_resume_Inr callApi_begin_fields)
qed

theorem C2_result_xor_error_witness:
  "result (callApi (initial None) (Inl (ErrorObj ''Failed to fetch''))) = JNull \<and>
   error (callApi (initial None) (Inl (ErrorObj ''Failed to fetch''))) = Some ''Failed to fetch''"
  using C2_result_xor_error [of "initial None" "Inl (ErrorObj ''Failed to fetch'')"]
  by (simp add: callApi_def callApi_resume_def try_block_def)

subsection \<open>C3: a status outside 2xx\<close>

text \<open>
  The specification says that for every response with a status outside 2xx the failure
  message contains the status code and the body text. \<open>res.text()\<close> is awaited inside
  the \<open>try\<close> block: when it rejects, the rejection itself reaches \<open>catch\<close>, and the
  message is its description, with no status code in it. Here a 502 response's body
  cannot be read.
\<close>

theorem C3_body_unreadable:
  "\<not> ok \<lparr>status = 502, res_text = Inl (ErrorObj ''stream broke''),
          res_json = Inl (ErrorObj ''stream broke'')\<rparr> \<and>
   error (callApi (initial None)
      (Inr \<lparr>status = 502, res_text = Inl (ErrorObj ''stream broke''),
            res_json = Inl (ErrorObj ''stream broke'')\<rparr>)) = Some ''stream broke'' \<and>
   show_nat 502 = ''502'' \<and>
   \<not> sublist ''502'' ''stream broke''"
proof -
  have "\<not> sublist ''502'' ''stream broke''"
    by code_simp
  moreover have "show_nat 502 = ''502''"
    by (simp add: show_nat.simps digit_char_def)
  ultimately show ?thesis
    by (simp add: ok_def callApi_def callApi_resume_def try_block_def)
qed

text \<open>
  C3, amended: for every response whose status is outside 200..299 the attempt ends in
  Failure with an empty result; when the body text is read the message is
  \<open>HTTP <status>: <text>\<close>, which contains the decimal status code and the raw text;
  when reading the body fails the message is the description of that failure.
\<close>

theorem C3_non_2xx_failure:
  assumes "\<not> ok res"
  shows "\<exists>m. spec_outcome (callApi s (Inr res)) = Failure m \<and>
             error (callApi s (Inr res)) = Some m \<and>
             result (callApi s (Inr res)) = JNull \<and>
             (\<forall>t. res_text res = Inr t \<longrightarrow>
                m = ''HTTP '' @ show_nat (status res) @ '': '' @ t \<and>
                sublist (show_nat (status res)) m \<and> sublist t m) \<and>
             (\<forall>d. res_text res = Inl (ErrorObj d) \<or> res_text res = Inl (NonError d) \<longrightarrow>
                m = d)"
proof (cases "res_text res")
  case (Inl e)
  with assms have "try_block (Inr res) = Inl e"
    by (simp add: try_block_def)
  then have "callApi s (Inr res) =
      (callApi_begin s)\<lparr>error := Some (msg e), result := JNull, isLoading := False\<rparr>"
    by (simp add: callApi_def callApi_resume_Inl)
  then show ?thesis
    using Inl by (cases e) (auto simp: spec_outcome_def)
next
  case (Inr t)
  let ?m = "''HTTP '' @ show_nat (status res) @ '': '' @ t"
  from assms Inr have "try_block (Inr res) = Inl (ErrorObj ?m)"
    by (simp add: try_block_def)
  then have st: "callApi s (Inr res) =
      (callApi_begin s)\<lparr>error := Some ?m, result := JNull, isLoading := False\<rparr>"
    by (simp add: callApi_def callApi_resume_Inl)
  have "sublist (show_nat (status res)) ?m"
    by (rule sublist_appendI)
  moreover have "sublist t ?m"
    using sublist_appendI [of t "''HTTP '' @ show_nat (status res) @ '': ''" "[]"] by simp
  ultimately show ?thesis
    using Inr st by (simp add: spec_outcome_def)
qed

theorem C3_non_2xx_failure_witness:
  "\<not> ok \<lparr>status = 503, res_text = Inr ''try later'',
          res_json = Inl (ErrorObj ''Unexpected token'')\<rparr> \<and>
   spec_outcome (callApi (initial None)
      (Inr \<lparr>status = 503, res_text = Inr ''try later'',
            res_json = Inl (ErrorObj ''Unexpected token'')\<rparr>))
     = Failure ''HTTP 503: try later'' \<and>
   spec_outcome (callApi (initial None)
      (Inr \<lparr>status = 404, res_text = Inr ''not found'',
            res_json = Inl (ErrorObj ''Unexpected token'')\<rparr>))
     = Failure ''HTTP 404: not found'' \<and>
   sublist ''404'' ''HTTP 404: not found'' \<and> sublist ''not found'' ''HTTP 404: not found'' \<and>
   spec_outcome (callApi (initial None)
      (Inr \<lparr>status = 502, res_text = Inl (NonError ''stream broke''),
            res_json = Inl (ErrorObj ''Unexpected token'')\<rparr>))
     = Failure ''stream broke''"
  using
    C3_non_2xx_failure
      [of "\<lparr>status = 503, res_text = Inr ''try later'',
            res_json = Inl (ErrorObj ''Unexpected token'')\<rparr>" "initial None"]
    C3_non_2xx_failure
      [of "\<lparr>status = 404, res_text = Inr ''not found'',
            res_json = Inl (ErrorObj ''Unexpected token'')\<rparr>" "initial None"]
    C3_non_2xx_failure
      [of "\<lparr>status = 502, res_text = Inl (NonError ''stream broke''),
            res_json = Inl (ErrorObj ''Unexpected token'')\<rparr>" "initial None"]
  by (simp add: ok_def show_nat.simps digit_char_def)

subsection \<open>C4: transport and decode errors\<close>

text \<open>
  C4: when \<open>fetch\<close> rejects with \<open>e\<close>, or the response is 2xx and \<open>res.json()\<close> rejects
  with \<open>e\<close>, the attempt ends in Failure, the message is the description \<open>d\<close> of \<open>e\<close>
  (the \<open>message\<close> of an \<open>Error\<close>, or what \<open>String(e)\<close> gives for another value), and
  \<open>result\<close> is empty whatever it held before.
\<close>

theorem C4_thrown_error_failure:
  assumes "f = Inl e \<or> (\<exists>res. f = Inr res \<and> ok res \<and> res_json res = Inl e)"
    and "e = ErrorObj d \<or> e = NonError d"
  shows "spec_outcome (callApi s f) = Failure d \<and>
         error (callApi s f) = Some d \<and>
         (\<exists>m. error (callApi s f) = Some m \<and> sublist d m) \<and>
         result (callApi s f) = JNull"
proof -
  from assms(1) have "try_block f = Inl e"
    by (auto simp: try_block_def)
  moreover from assms(2) have "msg e = d"
    by auto
  ultimately show ?thesis
    by (simp add: callApi_def callApi_resume_Inl spec_outcome_def)
qed

theorem C4_thrown_error_failure_witness:
  "spec_outcome (callApi
      \<lparr>backend = ''http://unreachable.invalid'', isLoading = False,
        result = JArr [JNum ''1''], error = None\<rparr>
      (Inl (ErrorObj ''Failed to fetch''))) = Failure ''Failed to fetch'' \<and>
   result (callApi
      \<lparr>backend = ''http://unreachable.invalid'', isLoading = False,
        result = JArr [JNum ''1''], error = None\<rparr>
      (Inl (ErrorObj ''Failed to fetch''))) = JNull \<and>
   error (callApi (initial None)
      (Inr \<lparr>status = 200, res_text = Inr ''<html>'',
            res_json = Inl (ErrorObj ''Unexpected token <'')\<rparr>)) = Some ''Unexpected token <'' \<and>
   error (callApi (initial None) (Inl (NonError ''timeout''))) = Some ''timeout''"
  using
    C4_thrown_error_failure
      [of "Inl (ErrorObj ''Failed to fetch'')" "ErrorObj ''Failed to fetch''"
          "''Failed to fetch''"
          "\<lparr>backend = ''http://unreachable.invalid'', isLoading = False,
            result = JArr [JNum ''1''], error = None\<rparr>"]
    C4_thrown_error_failure
      [of "Inr \<lparr>status = 200, res_text = Inr ''<html>'',
                res_json = Inl (ErrorObj ''Unexpected token <'')\<rparr>"
          "ErrorObj ''Unexpected token <''" "''Unexpected token <''" "initial None"]
    C4_thrown_error_failure
      [of "Inl (NonError ''timeout'')" "NonError ''timeout''" "''timeout''" "initial None"]
  by (simp add: ok_def)

subsection \<open>C5: a 2xx response with a JSON body\<close>

text \<open>
  The specification says that the rendered output after a 2xx response is the parsed
  value, pretty-printed. The element is rendered under \<open>result ? ... : null\<close>: for the
  body \<open>false\<close> the value is stored in \<open>result\<close> and nothing is rendered.
\<close>

theorem C5_falsy_value_not_rendered:
  "ok \<lparr>status = 200, res_text = Inr ''false'', res_json = Inr (JBool False)\<rparr> \<and>
   result (callApi (initial None)
     (Inr \<lparr>status = 200, res_text = Inr ''false'', res_json = Inr (JBool False)\<rparr>)) = JBool False \<and>
   pretty_json (render (callApi (initial None)
     (Inr \<lparr>status = 200, res_text = Inr ''false'', res_json = Inr (JBool False)\<rparr>))) = None"
  by (simp add: ok_def callApi_def callApi_resume_def try_block_def render_def)

text \<open>
  C5, amended: for every 2xx response whose body parses as JSON, the parsed value is
  stored verbatim as the result, with no error and loading off, and the outcome is
  Success unless the value is \<open>null\<close>; the rendered output is that value printed by
  \<open>JSON.stringify\<close> with an indentation of two blanks when the value is truthy, and
  nothing when it is falsy, that is \<open>null\<close>, \<open>false\<close>, the number \<open>0\<close> (or \<open>NaN\<close>) or
  the empty string.
\<close>

theorem C5_2xx_success:
  assumes "ok res" and "res_json res = Inr v"
  shows "result (callApi s (Inr res)) = v \<and>
         error (callApi s (Inr res)) = None \<and>
         \<not> isLoading (callApi s (Inr res)) \<and>
         (v \<noteq> JNull \<longrightarrow> spec_outcome (callApi s (Inr res)) = Success v) \<and>
         pretty_json (render (callApi s (Inr res))) =
           (if truthy v then Some (stringify v (Some 2)) else None) \<and>
         truthy v =
           (v \<noteq> JNull \<and> v \<noteq> JBool False \<and> v \<noteq> JNum ''0'' \<and> v \<noteq> JNum ''NaN'' \<and> v \<noteq> JStr [])"
proof -
  from assms have "try_block (Inr res) = Inr v"
    by (simp add: try_block_def)
  then have "callApi s (Inr res) = (callApi_begin s)\<lparr>result := v, isLoading := False\<rparr>"
    by (simp add: callApi_def callApi_resume_Inr)
  then have "result (callApi s (Inr res)) = v \<and>
         error (callApi s (Inr res)) = None \<and>
         \<not> isLoading (callApi s (Inr res)) \<and>
         (v \<noteq> JNull \<longrightarrow> spec_outcome (callApi s (Inr res)) = Success v) \<and>
         pretty_json (render (callApi s (Inr res))) =
           (if truthy v then Some (stringify v (Some 2)) else None)"
    by (simp add: callApi_begin_fields spec_outcome_def render_def PrettyJson_def)
  moreover have "truthy v =
      (v \<noteq> JNull \<and> v \<noteq> JBool False \<and> v \<noteq> JNum ''0'' \<and> v \<noteq> JNum ''NaN'' \<and> v \<noteq> JStr [])"
    by (cases v) auto
  ultimately show ?thesis
    by simp
qed

theorem C5_2xx_success_witness:
  \<open>ok \<lparr>status = 200, res_text = Inr ''[{"id":1,"name":"Soup"}]'',
         res_json = Inr (JArr [JObj [(js ''id'', JNum ''1''), (js ''name'', JStr (js ''Soup''))]])\<rparr> \<and>
    spec_outcome (callApi (initial None)
      (Inr \<lparr>status = 200, res_text = Inr ''[{"id":1,"name":"Soup"}]'',
         res_json = Inr (JArr [JObj [(js ''id'', JNum ''1''), (js ''name'', JStr (js ''Soup''))]])\<rparr>))
      = Success (JArr [JObj [(js ''id'', JNum ''1''), (js ''name'', JStr (js ''Soup''))]]) \<and>
    pretty_json (render (callApi (initial None)
      (Inr \<lparr>status = 200, res_text = Inr ''[{"id":1,"name":"Soup"}]'',
         res_json = Inr (JArr [JObj [(js ''id'', JNum ''1''), (js ''name'', JStr (js ''Soup''))]])\<rparr>)))
      = Some (js ''[\<newline>  {\<newline>    "id": 1,\<newline>    "name": "Soup"\<newline>  }\<newline>]'') \<and>
    pretty_json (render (callApi (initial None)
      (Inr \<lparr>status = 200, res_text = Inr ''{"n":1e21,"half":0.5,"name":"..."}'',
         res_json = Inr (JObj [(js ''n'', JNum ''1e+21''), (js ''half'', JNum ''0.5''),
                               (js ''name'', JStr [0x5473, 0x564C])])\<rparr>)))
      = Some (js ''{\<newline>  "n": 1e+21,\<newline>  "half": 0.5,\<newline>  "name": "'' @ [0x5473, 0x564C]
              @ js ''"\<newline>}'')\<close>
  using
    C5_2xx_success
      [of \<open>\<lparr>status = 200, res_text = Inr ''[{"id":1,"name":"Soup"}]'',
         res_json = Inr (JArr [JObj [(js ''id'', JNum ''1''), (js ''name'', JStr (js ''Soup''))]])\<rparr>\<close>
         "JArr [JObj [(js ''id'', JNum ''1''), (js ''name'', JStr (js ''Soup''))]]" "initial None"]
    C5_2xx_success
      [of \<open>\<lparr>status = 200, res_text = Inr ''{"n":1e21,"half":0.5,"name":"..."}'',
         res_json = Inr (JObj [(js ''n'', JNum ''1e+21''), (js ''half'', JNum ''0.5''),
                               (js ''name'', JStr [0x5473, 0x564C])])\<rparr>\<close>
         "JObj [(js ''n'', JNum ''1e+21''), (js ''half'', JNum ''0.5''),
                (js ''name'', JStr [0x5473, 0x564C])]" "initial None"]
  by (simp add: ok_def stringify_def replicate_two Let_def quote_def quote_unit_def
      high_surrogate_def low_surrogate_def js_def)

subsection \<open>C6: the endpoint set\<close>

text \<open>
  C6: for every backend address \<open>b\<close> and date \<open>d\<close>, list-recipes and create-recipe are
  \<open>b/api/recipes\<close> and weekly-plan is \<open>b/api/weeks/d/plan\<close>; after an event that writes
  \<open>b\<close> as the backend address, the next click sends the request built from the
  endpoints of \<open>b\<close>.
\<close>

theorem C6_endpoints:
  "listRecipes (endpoints b) = b @ ''/api/recipes'' \<and>
   createRecipe (endpoints b) = b @ ''/api/recipes'' \<and>
   weeklyPlan (endpoints b) d = b @ ''/api/weeks/'' @ d @ ''/plan'' \<and>
   (written_backend ev = Some b \<and> \<not> isLoading s \<longrightarrow>
      backend (fst (step s ev)) = b \<and>
      snd (run s [ev, Click a]) = [onClick_request (endpoints b) a])"
  by (cases ev) (simp_all add: endpoints_def)

theorem C6_endpoints_witness:
  "snd (run (initial None) [InputChange ''http://10.0.0.5:9000'', Click WeeklyPlan])
     = [\<lparr>url = ''http://10.0.0.5:9000/api/weeks/2025-08-25/plan'', init = None\<rparr>] \<and>
   snd (run (initial None) [SelectChange ''http://localhost:8080'', Click ListRecipes])
     = [\<lparr>url = ''http://localhost:8080/api/recipes'', init = None\<rparr>]"
  using
    C6_endpoints [of "''http://10.0.0.5:9000''" "''2025-08-25''" "InputChange ''http://10.0.0.5:9000''"
           "initial None" WeeklyPlan]
    C6_endpoints [of "''http://localhost:8080''" "''2025-08-25''" "SelectChange ''http://localhost:8080''"
           "initial None" ListRecipes]
  by (simp add: initial_def)

subsection \<open>C7: the create-recipe request\<close>

text \<open>
  C7: whenever the create button's handler runs, it sends one request to
  \<open><backend>/api/recipes\<close> with the method POST, the single header
  \<open>Content-Type: application/json\<close> and a body that is the same text in every state:
  the compact JSON of an object with a name, a steps text and an array of ingredient
  objects, each with a name, a number as quantity and a unit code.
\<close>

theorem C7_create_request:
  assumes "\<not> isLoading s"
  shows \<open>\<exists>i. snd (step s (Click CreateRecipe))
                = [\<lparr>url = backend s @ ''/api/recipes'', init = Some i\<rparr>] \<and>
              http_method i = ''POST'' \<and>
              headers i = [(''Content-Type'', ''application/json'')] \<and>
              body i = stringify sample_recipe None \<and>
              body i = js ''{"name":"Miso Soup","steps":"Boil dashi, add miso.","ingredients":[{"name":"miso","quantity":30,"unit":"GRAM"}]}'' \<and>
              (\<exists>n st ings.
                 sample_recipe = JObj [(js ''name'', JStr n), (js ''steps'', JStr st),
                                       (js ''ingredients'', JArr ings)] \<and>
                 (\<forall>g\<in>set ings. \<exists>gn q u.
                    g = JObj [(js ''name'', JStr gn), (js ''quantity'', JNum q),
                              (js ''unit'', JStr u)]))\<close>
proof -
  have b: \<open>stringify sample_recipe None = js ''{"name":"Miso Soup","steps":"Boil dashi, add miso.","ingredients":[{"name":"miso","quantity":30,"unit":"GRAM"}]}''\<close>
    by (simp add: stringify_def sample_recipe_def quote_def quote_unit_def
        high_surrogate_def low_surrogate_def js_def)
  have shape: "\<exists>n st ings.
      sample_recipe = JObj [(js ''name'', JStr n), (js ''steps'', JStr st),
                            (js ''ingredients'', JArr ings)] \<and>
      (\<forall>g\<in>set ings. \<exists>gn q u.
         g = JObj [(js ''name'', JStr gn), (js ''quantity'', JNum q),
                              (js ''unit'', JStr u)])"
    by (simp add: sample_recipe_def)
  show ?thesis
    using assms b shape by (simp add: endpoints_def)
qed

theorem C7_create_request_witness:
  \<open>\<not> isLoading (initial (Some ''https://api.example.org'')) \<and>
    map url (snd (step (initial (Some ''https://api.example.org'')) (Click CreateRecipe)))
      = [''https://api.example.org/api/recipes''] \<and>
    map (map_option http_method \<circ> init)
        (snd (step (initial (Some ''https://api.example.org'')) (Click CreateRecipe)))
      = [Some ''POST'']\<close>
  using C7_create_request [of "initial (Some ''https://api.example.org'')"]
  by (auto simp: initial_def)

subsection \<open>C8: changing the backend address\<close>

text \<open>
  C8: a sequence of changes of the backend address, through the dropdown or the text
  field, sends no request and leaves \<open>isLoading\<close>, \<open>result\<close> and \<open>error\<close> as they were;
  the backend address is then the value of the last change, and the next click sends
  the request built from that value.
\<close>

theorem C8_backend_change_frame:
  assumes "\<forall>ev\<in>set evs. changes_backend ev"
  shows "snd (run s evs) = [] \<and>
         isLoading (fst (run s evs)) = isLoading s \<and>
         result (fst (run s evs)) = result s \<and>
         error (fst (run s evs)) = error s \<and>
         (evs \<noteq> [] \<longrightarrow> Some (backend (fst (run s evs))) = written_backend (last evs)) \<and>
         (evs \<noteq> [] \<and> \<not> isLoading s \<longrightarrow>
            snd (step (fst (run s evs)) (Click a))
              = [onClick_request (endpoints (the (written_backend (last evs)))) a])"
proof -
  have "evs \<noteq> [] \<Longrightarrow> changes_backend (last evs)"
    using assms last_in_set by blast
  then have "evs \<noteq> [] \<Longrightarrow> Some (the (written_backend (last evs))) = written_backend (last evs)"
    by (cases "last evs") simp_all
  then show ?thesis
    by (simp add: run_changes [OF assms])
qed

theorem C8_backend_change_frame_witness:
  "snd (run (initial None) [SelectChange ''http://localhost:8080'', InputChange ''http://h:1'']) = [] \<and>
   fst (run (initial None) [SelectChange ''http://localhost:8080'', InputChange ''http://h:1''])
     = (initial None)\<lparr>backend := ''http://h:1''\<rparr> \<and>
   snd (step (fst (run (initial None)
                [SelectChange ''http://localhost:8080'', InputChange ''http://h:1'']))
          (Click ListRecipes))
     = [\<lparr>url = ''http://h:1/api/recipes'', init = None\<rparr>]"
  using C8_backend_change_frame [of "[SelectChange ''http://localhost:8080'', InputChange ''http://h:1'']"
               "initial None" ListRecipes]
  by (simp add: initial_def endpoints_def)

subsection \<open>C9: no way back to Idle\<close>

text \<open>
  The specification says that after the first action the state is never Idle again.
  A click followed by a 200 response with the body \<open>null\<close> leaves the panel in exactly
  its initial state.
\<close>

theorem C9_back_to_idle:
  "fst (run (initial None)
     [Click ListRecipes,
      Settled (Inr \<lparr>status = 200, res_text = Inr ''null'', res_json = Inr JNull\<rparr>)])
     = initial None \<and>
   spec_outcome (fst (run (initial None)
     [Click ListRecipes,
      Settled (Inr \<lparr>status = 200, res_text = Inr ''null'', res_json = Inr JNull\<rparr>)])) = Idle"
  by (simp add: initial_def callApi_begin_def callApi_resume_def try_block_def ok_def
      spec_outcome_def)

text \<open>
  C9, amended: after the first trigger, in every sequence of events in which no 2xx
  response with a body parsed to the JSON value \<open>null\<close> is settled, the state is never
  Idle: only Loading, Success and Failure are reached. (So Idle is reached again only by
  settling such a response.)
\<close>

theorem C9_idle_only_after_null_body:
  assumes "\<forall>ev\<in>set evs. \<forall>res. ev = Settled (Inr res) \<and> ok res \<longrightarrow> res_json res \<noteq> Inr JNull"
  shows "spec_outcome (fst (run s (Click a # evs))) \<noteq> Idle"
proof -
  have "spec_outcome (fst (step s (Click a))) \<noteq> Idle"
    unfolding click_loading by simp
  with assms have "spec_outcome (fst (run (fst (step s (Click a))) evs)) \<noteq> Idle"
    by (rule run_not_idle)
  then show ?thesis
    by (simp add: case_prod_beta del: step.simps)
qed

theorem C9_idle_only_after_null_body_witness:
  "spec_outcome (fst (run (initial None)
     [Click ListRecipes,
      Settled (Inr \<lparr>status = 200, res_text = Inr ''[]'', res_json = Inr (JArr [])\<rparr>),
      InputChange ''http://nowhere'',
      Click WeeklyPlan,
      Settled (Inl (ErrorObj ''Failed to fetch''))])) = Failure ''Failed to fetch''"
  using C9_idle_only_after_null_body [of "[Settled (Inr \<lparr>status = 200, res_text = Inr ''[]'', res_json = Inr (JArr [])\<rparr>),
                 InputChange ''http://nowhere'', Click WeeklyPlan,
                 Settled (Inl (ErrorObj ''Failed to fetch''))]" "initial None" ListRecipes]
  by (simp add: initial_def callApi_begin_def callApi_resume_def try_block_def ok_def
      spec_outcome_def)

subsection \<open>C10: the option Custom\<close>

text \<open>
  C10: \<open>custom\<close> is the value of an option of the dropdown; after it is selected, and
  as long as no other change of the address follows, the backend address is the string
  \<open>custom\<close> and a click sends its request to \<open>custom/api/recipes\<close>, or to
  \<open>custom/api/weeks/2025-08-25/plan\<close> for the weekly plan.
\<close>

theorem C10_custom_option:
  assumes "\<forall>ev\<in>set evs. \<not> changes_backend ev"
    and "\<not> isLoading (fst (run s (SelectChange ''custom'' # evs)))"
  shows "''custom'' \<in> set (select_options envBase) \<and>
         backend (fst (run s (SelectChange ''custom'' # evs))) = ''custom'' \<and>
         map url (snd (step (fst (run s (SelectChange ''custom'' # evs))) (Click a)))
           = [case a of ListRecipes \<Rightarrow> ''custom/api/recipes''
                      | CreateRecipe \<Rightarrow> ''custom/api/recipes''
                      | WeeklyPlan \<Rightarrow> ''custom/api/weeks/2025-08-25/plan'']"
proof -
  let ?s = "fst (run s (SelectChange ''custom'' # evs))"
  have "backend ?s = backend (s\<lparr>backend := ''custom''\<rparr>)"
    using run_keeps_backend [OF assms(1), of "s\<lparr>backend := ''custom''\<rparr>"]
    by (simp add: case_prod_beta)
  then have b: "backend ?s = ''custom''"
    by simp
  have "''custom'' \<in> set (select_options envBase)"
    by (simp add: select_options_def)
  moreover have "map url (snd (step ?s (Click a)))
           = [case a of ListRecipes \<Rightarrow> ''custom/api/recipes''
                      | CreateRecipe \<Rightarrow> ''custom/api/recipes''
                      | WeeklyPlan \<Rightarrow> ''custom/api/weeks/2025-08-25/plan'']"
    using assms(2) b by (cases a) (simp_all add: endpoints_def)
  ultimately show ?thesis
    using b by simp
qed

theorem C10_custom_option_witness:
  "snd (run (initial None)
     [SelectChange ''custom'', Click ListRecipes,
      Settled (Inl (ErrorObj ''Failed to parse URL'')), Click WeeklyPlan])
   = [\<lparr>url = ''custom/api/recipes'', init = None\<rparr>,
      \<lparr>url = ''custom/api/weeks/2025-08-25/plan'', init = None\<rparr>]"
  using C10_custom_option [of "[Click ListRecipes, Settled (Inl (ErrorObj ''Failed to parse URL''))]"
                "initial None" None WeeklyPlan]
  by (simp add: initial_def callApi_begin_def callApi_resume_def try_block_def endpoints_def)

end
